theory Spec2Isabelle
  imports
    Main
    "HOL-Library.Multiset"
    "HOL-Library.Char_ord"
    "HOL-Library.List_Lexorder"
    "HOL-Library.Product_Lexorder"
begin

section \<open>Documents, collections and errors\<close>

text \<open>
  The handlers of \<^verbatim>\<open>backend/routers/announcements.py\<close> work on Python dictionaries
  (\<^verbatim>\<open>Dict[str, Any]\<close>) that are read from and written to two document collections.
  A dictionary is a partial map from field names to values; the values that occur in the
  handlers are strings, booleans and the identifier the store assigns on insertion.
\<close>

datatype val = VStr string | VBool bool | VObjectId string

type_synonym doc = "string \<rightharpoonup> val"

type_synonym collection = "doc list"

text \<open>
  A query document such as \<^verbatim>\<open>{"_id": announcement_id}\<close> and the operand of
  \<^verbatim>\<open>$set\<close> are small dictionaries built field by field; they are kept as association
  lists in insertion order, so that \<^verbatim>\<open>if not update_doc\<close> is the test for the empty list.
\<close>

type_synonym fields = "(string \<times> val) list"

text \<open>
  Every \<^verbatim>\<open>raise\<close> of the handlers is a value. \<^verbatim>\<open>HTTPException\<close> carries the status
  code and the detail string. The other three are the faults that the Python below the
  handlers can raise: a missing dictionary key, a method call on \<^verbatim>\<open>None\<close>, and the
  store refusing a second document with the same \<^verbatim>\<open>_id\<close>.
\<close>

datatype error =
    HTTPException nat string
  | KeyError string
  | AttributeError
  | DuplicateKeyError

record database =
  announcements_collection :: collection
  teachers_collection :: collection

text \<open>\<^verbatim>\<open>str(x)\<close> on the values of the model; an ObjectId prints as its hexadecimal text.\<close>

fun py_str :: "val \<Rightarrow> string" where
  "py_str (VStr s) = s"
| "py_str (VBool b) = (if b then ''True'' else ''False'')"
| "py_str (VObjectId h) = h"

text \<open>\<^verbatim>\<open>d.pop(k, None)\<close>: the key is removed when present, and nothing is raised.\<close>

definition pop :: "string \<Rightarrow> doc \<Rightarrow> doc" where
  "pop k d = d(k := None)"

section \<open>The document store\<close>

text \<open>
  Modelled from the spec: the module \<^verbatim>\<open>..database\<close> that provides
  \<^verbatim>\<open>announcements_collection\<close> and \<^verbatim>\<open>teachers_collection\<close> is not part of the
  sources. The spec describes both as opaque document stores supporting filtered find
  with sort, insert, field-level update by id, delete by id and lookup by username, each
  call atomic. A collection is the list of its documents in storage order; a query
  matches a document when every queried field is present with the queried value.
\<close>

definition matches :: "fields \<Rightarrow> doc \<Rightarrow> bool" where
  "matches q d = list_all (\<lambda>(k, v). d k = Some v) q"

text \<open>Modelled from the spec: \<^verbatim>\<open>collection.find(query)\<close>, filtered find.\<close>

definition find_docs :: "collection \<Rightarrow> fields \<Rightarrow> doc list" where
  "find_docs c q = filter (matches q) c"

text \<open>
  Modelled from the spec: \<^verbatim>\<open>collection.find_one(query)\<close>, the first matching document
  or \<^verbatim>\<open>None\<close>.
\<close>

definition find_one :: "collection \<Rightarrow> fields \<Rightarrow> doc option" where
  "find_one c q = List.find (matches q) c"

text \<open>
  Modelled from the spec: the order that \<^verbatim>\<open>cursor.sort(field, direction)\<close> sorts by.
  A missing field sorts lowest, then strings (compared byte by byte), then identifiers,
  then booleans (false before true).
\<close>

fun bson_key :: "val option \<Rightarrow> nat \<times> string" where
  "bson_key None = (0, [])"
| "bson_key (Some (VStr s)) = (1, s)"
| "bson_key (Some (VObjectId h)) = (2, h)"
| "bson_key (Some (VBool b)) = (3, if b then ''1'' else ''0'')"

text \<open>
  Modelled from the spec: \<^verbatim>\<open>cursor.sort(field, direction)\<close>; a negative direction is
  descending. The store promises no order among documents with equal keys; the model takes
  the one a stable sort gives, and no theorem below depends on that choice.
\<close>

definition sort_cursor :: "doc list \<Rightarrow> string \<Rightarrow> int \<Rightarrow> doc list" where
  "sort_cursor ds field direction =
     (if direction < 0 then rev (sort_key (\<lambda>d. bson_key (d field)) ds)
      else sort_key (\<lambda>d. bson_key (d field)) ds)"

text \<open>
  Modelled from the spec: \<^verbatim>\<open>collection.insert_one(document)\<close> for a document without
  \<^verbatim>\<open>_id\<close>. The identifier is assigned by the store and is an input of the model
  (\<open>new_id\<close>). The key is written into the caller's dictionary, the document is appended,
  and the result carries \<^verbatim>\<open>inserted_id\<close>. Identifiers are unique in a collection: an
  identifier already in use is refused.
\<close>

definition insert_one :: "collection \<Rightarrow> val \<Rightarrow> doc \<Rightarrow> error + (val \<times> doc \<times> collection)" where
  "insert_one c new_id d =
     (let d' = d(''_id'' \<mapsto> new_id) in
      if find_one c [(''_id'', new_id)] \<noteq> None then Inl DuplicateKeyError
      else Inr (new_id, d', c @ [d']))"

text \<open>The effect of \<^verbatim>\<open>{"$set": update_doc}\<close> on one document.\<close>

definition set_fields :: "fields \<Rightarrow> doc \<Rightarrow> doc" where
  "set_fields u d = fold (\<lambda>(k, v) m. m(k \<mapsto> v)) u d"

text \<open>
  Modelled from the spec: \<^verbatim>\<open>collection.update_one(filter, {"$set": update_doc})\<close>,
  field-level update of the first matching document. The result is
  \<^verbatim>\<open>matched_count\<close> and the collection afterwards.
\<close>

fun update_one :: "collection \<Rightarrow> fields \<Rightarrow> fields \<Rightarrow> nat \<times> collection" where
  "update_one [] q u = (0, [])"
| "update_one (d # ds) q u =
     (if matches q d then (1, set_fields u d # ds)
      else (case update_one ds q u of (n, ds') \<Rightarrow> (n, d # ds')))"

text \<open>
  Modelled from the spec: \<^verbatim>\<open>collection.delete_one(filter)\<close>, removal of the first
  matching document. The result is \<^verbatim>\<open>deleted_count\<close> and the collection afterwards.
\<close>

fun delete_one :: "collection \<Rightarrow> fields \<Rightarrow> nat \<times> collection" where
  "delete_one [] q = (0, [])"
| "delete_one (d # ds) q =
     (if matches q d then (1, ds)
      else (case delete_one ds q of (n, ds') \<Rightarrow> (n, d # ds')))"

section \<open>The handlers\<close>

subsection \<open>\<^verbatim>\<open>get_announcements\<close>\<close>

text \<open>
  The loop over the cursor: each document loses its \<^verbatim>\<open>_id\<close> key and is appended to
  the list \<^verbatim>\<open>announcements\<close>.
\<close>

fun pop_loop :: "doc list \<Rightarrow> doc list \<Rightarrow> doc list" where
  "pop_loop announcements [] = announcements"
| "pop_loop announcements (announcement # cursor) =
     pop_loop (announcements @ [pop ''_id'' announcement]) cursor"

text \<open>
  \<^verbatim>\<open>active_only\<close> is \<^verbatim>\<open>Optional[bool]\<close>; \<^verbatim>\<open>if active_only\<close> holds for
  \<^verbatim>\<open>True\<close> only. The handler raises nothing and leaves the store as it is.
\<close>

definition get_announcements :: "database \<Rightarrow> bool option \<Rightarrow> doc list" where
  "get_announcements db active_only =
     (let query = (if active_only = Some True then [(''is_active'', VBool True)] else [])
      in pop_loop []
           (sort_cursor (find_docs (announcements_collection db) query) ''created_at'' (- 1)))"

subsection \<open>\<^verbatim>\<open>create_announcement\<close>\<close>

text \<open>
  Besides the request parameters the handler reads the clock
  (\<^verbatim>\<open>datetime.utcnow().isoformat()\<close>, the input \<open>utcnow\<close>) and receives the identifier
  the store assigns (\<open>new_id\<close>). \<^verbatim>\<open>not teacher_username\<close> holds for \<^verbatim>\<open>None\<close> and
  for the empty string. A document returned by \<^verbatim>\<open>find_one({"_id": ...})\<close> has the key
  \<^verbatim>\<open>_id\<close>, so \<^verbatim>\<open>not teacher\<close> is the test for \<^verbatim>\<open>None\<close>.
\<close>

definition create_announcement ::
  "database \<Rightarrow> string \<Rightarrow> val \<Rightarrow> string \<Rightarrow> string \<Rightarrow> string option \<Rightarrow> bool
   \<Rightarrow> (error + doc) \<times> database" where
  "create_announcement db utcnow new_id title message teacher_username is_active =
     (case teacher_username of
        None \<Rightarrow> (Inl (HTTPException 401 ''Authentication required to post announcements''), db)
      | Some username \<Rightarrow>
          if username = []
          then (Inl (HTTPException 401 ''Authentication required to post announcements''), db)
          else
            (case find_one (teachers_collection db) [(''_id'', VStr username)] of
               None \<Rightarrow> (Inl (HTTPException 401 ''Invalid teacher credentials''), db)
             | Some teacher \<Rightarrow>
                 (case teacher ''display_name'' of
                    None \<Rightarrow> (Inl (KeyError ''display_name''), db)
                  | Some display_name \<Rightarrow>
                      (let announcement =
                             [''title'' \<mapsto> VStr title,
                              ''message'' \<mapsto> VStr message,
                              ''created_by'' \<mapsto> display_name,
                              ''created_at'' \<mapsto> VStr utcnow,
                              ''is_active'' \<mapsto> VBool is_active]
                       in case insert_one (announcements_collection db) new_id announcement of
                            Inl e \<Rightarrow> (Inl e, db)
                          | Inr (inserted_id, announcement', c') \<Rightarrow>
                              (Inr (announcement'(''_id'' \<mapsto> VStr (py_str inserted_id))),
                               db\<lparr>announcements_collection := c'\<rparr>)))))"

subsection \<open>\<^verbatim>\<open>update_announcement\<close>\<close>

text \<open>
  \<^verbatim>\<open>update_doc\<close> receives a field exactly when the parameter is not \<^verbatim>\<open>None\<close>.
\<close>

definition update_doc :: "bool option \<Rightarrow> string option \<Rightarrow> string option \<Rightarrow> fields" where
  "update_doc is_active title message =
     (case is_active of None \<Rightarrow> [] | Some b \<Rightarrow> [(''is_active'', VBool b)]) @
     (case title of None \<Rightarrow> [] | Some t \<Rightarrow> [(''title'', VStr t)]) @
     (case message of None \<Rightarrow> [] | Some m \<Rightarrow> [(''message'', VStr m)])"

definition update_announcement ::
  "database \<Rightarrow> string \<Rightarrow> string option \<Rightarrow> bool option \<Rightarrow> string option \<Rightarrow> string option
   \<Rightarrow> (error + doc) \<times> database" where
  "update_announcement db announcement_id teacher_username is_active title message =
     (case teacher_username of
        None \<Rightarrow> (Inl (HTTPException 401 ''Authentication required''), db)
      | Some username \<Rightarrow>
          if username = []
          then (Inl (HTTPException 401 ''Authentication required''), db)
          else
            (case find_one (teachers_collection db) [(''_id'', VStr username)] of
               None \<Rightarrow> (Inl (HTTPException 401 ''Invalid teacher credentials''), db)
             | Some teacher \<Rightarrow>
                 if update_doc is_active title message = []
                 then (Inl (HTTPException 400 ''No fields to update''), db)
                 else
                   (case update_one (announcements_collection db)
                           [(''_id'', VStr announcement_id)]
                           (update_doc is_active title message) of
                      (matched_count, c') \<Rightarrow>
                        if matched_count = 0
                        then (Inl (HTTPException 404 ''Announcement not found''),
                              db\<lparr>announcements_collection := c'\<rparr>)
                        else
                          (case find_one c' [(''_id'', VStr announcement_id)] of
                             None \<Rightarrow> (Inl AttributeError, db\<lparr>announcements_collection := c'\<rparr>)
                           | Some updated \<Rightarrow>
                               (Inr (pop ''_id'' updated),
                                db\<lparr>announcements_collection := c'\<rparr>)))))"

subsection \<open>\<^verbatim>\<open>delete_announcement\<close>\<close>

definition delete_announcement ::
  "database \<Rightarrow> string \<Rightarrow> string option \<Rightarrow> (error + doc) \<times> database" where
  "delete_announcement db announcement_id teacher_username =
     (case teacher_username of
        None \<Rightarrow> (Inl (HTTPException 401 ''Authentication required''), db)
      | Some username \<Rightarrow>
          if username = []
          then (Inl (HTTPException 401 ''Authentication required''), db)
          else
            (case find_one (teachers_collection db) [(''_id'', VStr username)] of
               None \<Rightarrow> (Inl (HTTPException 401 ''Invalid teacher credentials''), db)
             | Some teacher \<Rightarrow>
                 (case delete_one (announcements_collection db)
                         [(''_id'', VStr announcement_id)] of
                    (deleted_count, c') \<Rightarrow>
                      if deleted_count = 0
                      then (Inl (HTTPException 404 ''Announcement not found''),
                            db\<lparr>announcements_collection := c'\<rparr>)
                      else (Inr [''message'' \<mapsto> VStr ''Announcement deleted successfully''],
                            db\<lparr>announcements_collection := c'\<rparr>))))"

section \<open>Vocabulary of the properties\<close>

text \<open>An announcement (or teacher) with the given identifier is stored in the collection.\<close>

definition has_id :: "collection \<Rightarrow> string \<Rightarrow> bool" where
  "has_id c i = list_ex (\<lambda>d. d ''_id'' = Some (VStr i)) c"

text \<open>
  The credential is accepted: \<^verbatim>\<open>teacher_username\<close> is given, is not the empty string,
  and is the key of a teacher record.
\<close>

definition known_teacher :: "database \<Rightarrow> string option \<Rightarrow> bool" where
  "known_teacher db teacher_username =
     (case teacher_username of
        None \<Rightarrow> False
      | Some username \<Rightarrow> username \<noteq> [] \<and> has_id (teachers_collection db) username)"

text \<open>The status code of a response that is an \<^verbatim>\<open>HTTPException\<close>.\<close>

fun http_status :: "error + 'a \<Rightarrow> nat option" where
  "http_status (Inl (HTTPException code detail)) = Some code"
| "http_status (Inl _) = None"
| "http_status (Inr _) = None"

text \<open>
  The identifier of the document is one the store assigned (an ObjectId), not a string.
\<close>

definition oid_keyed :: "doc \<Rightarrow> bool" where
  "oid_keyed d = (case d ''_id'' of Some (VObjectId h) \<Rightarrow> True | _ \<Rightarrow> False)"


section \<open>Example databases\<close>

text \<open>
  \<open>school\<close> has one teacher, \<^verbatim>\<open>t_jones\<close> with display name \<^verbatim>\<open>Ms. Jones\<close>, and one
  stored announcement under the string identifier \<^verbatim>\<open>a1\<close>. \<open>untitled\<close> is the document
  that a call of \<^verbatim>\<open>create_announcement\<close> with the empty title persists in it.
\<close>

definition ms_jones :: doc where
  "ms_jones = [''_id'' \<mapsto> VStr ''t_jones'', ''display_name'' \<mapsto> VStr ''Ms. Jones'']"

definition exam :: doc where
  "exam = [''_id'' \<mapsto> VStr ''a1'',
           ''title'' \<mapsto> VStr ''Exam'',
           ''message'' \<mapsto> VStr ''Math exam Friday'',
           ''created_by'' \<mapsto> VStr ''Ms. Jones'',
           ''created_at'' \<mapsto> VStr ''2024-05-01T09:00:00'',
           ''is_active'' \<mapsto> VBool True]"

definition school :: database where
  "school = \<lparr>announcements_collection = [exam], teachers_collection = [ms_jones]\<rparr>"


text \<open>
  \<open>staffroom\<close> has the same teacher and no announcement yet. \<open>notice\<close> is the document
  that the call \<^verbatim>\<open>create_announcement("Exam", "Math exam Friday", "t_jones", True)\<close>
  persists in it when the store assigns the identifier
  \<^verbatim>\<open>ObjectId("65a1b2c3d4e5f60718293a4b")\<close>, and \<open>posted\<close> is the database after that call.
\<close>

definition staffroom :: database where
  "staffroom = \<lparr>announcements_collection = [], teachers_collection = [ms_jones]\<rparr>"

definition notice :: doc where
  "notice = [''title'' \<mapsto> VStr ''Exam'',
             ''message'' \<mapsto> VStr ''Math exam Friday'',
             ''created_by'' \<mapsto> VStr ''Ms. Jones'',
             ''created_at'' \<mapsto> VStr ''2024-05-02T10:00:00'',
             ''is_active'' \<mapsto> VBool True,
             ''_id'' \<mapsto> VObjectId ''65a1b2c3d4e5f60718293a4b'']"

definition posted :: database where
  "posted = \<lparr>announcements_collection = [notice], teachers_collection = [ms_jones]\<rparr>"

section \<open>Facts about the store\<close>

lemma matches_Nil [simp]: "matches [] d"
  by (simp add: matches_def)

lemma matches_single [simp]: "matches [(k, v)] d \<longleftrightarrow> d k = Some v"
  by (simp add: matches_def)

lemma pop_other [simp]: "k \<noteq> k' \<Longrightarrow> pop k d k' = d k'"
  by (simp add: pop_def)

lemma pop_same [simp]: "pop k d k = None"
  by (simp add: pop_def)

lemma find_one_None_iff: "find_one c [(''_id'', VStr i)] = None \<longleftrightarrow> \<not> has_id c i"
  by (auto simp: find_one_def has_id_def find_None_iff list_ex_iff)

lemma find_one_Some_has_id: "find_one c [(''_id'', VStr i)] = Some d \<Longrightarrow> has_id c i"
  using find_one_None_iff [of c i] by auto


lemma update_one_unmatched: "find_one c q = None \<Longrightarrow> update_one c q u = (0, c)"
  by (induction c) (auto simp: find_one_def split: if_splits)


lemma delete_one_unmatched: "find_one c q = None \<Longrightarrow> delete_one c q = (0, c)"
  by (induction c) (auto simp: find_one_def split: if_splits)

lemma delete_one_matched:
  "find_one before q = None \<Longrightarrow> matches q x \<Longrightarrow>
   delete_one (before @ x # after) q = (1, before @ after)"
  by (induction before) (auto simp: find_one_def split: if_splits)

section \<open>Listing\<close>

lemma pop_loop_eq: "pop_loop acc ds = acc @ map (pop ''_id'') ds"
  by (induction ds arbitrary: acc) auto

lemma get_announcements_eq:
  "get_announcements db active_only =
     map (pop ''_id'')
       (rev (sort_key (\<lambda>d. bson_key (d ''created_at''))
          (filter (matches (if active_only = Some True then [(''is_active'', VBool True)] else []))
             (announcements_collection db))))"
  by (simp add: get_announcements_def pop_loop_eq sort_cursor_def find_docs_def)

lemma sorted_desc:
  "sorted_wrt (\<lambda>a b. bson_key (b ''created_at'') \<le> bson_key (a ''created_at''))
     (map (pop ''_id'') (rev (sort_key (\<lambda>d. bson_key (d ''created_at'')) ds)))"
proof -
  have "sorted (map (\<lambda>d. bson_key (d ''created_at''))
          (sort_key (\<lambda>d. bson_key (d ''created_at'')) ds))"
    by (rule sorted_sort_key)
  then show ?thesis
    by (simp add: sorted_wrt_map sorted_wrt_rev sorted_map)
qed

text \<open>On timestamps, which are strings, the sort key orders as the strings do.\<close>

lemma bson_key_VStr: "bson_key (Some (VStr s)) \<le> bson_key (Some (VStr t)) \<longleftrightarrow> s \<le> t"
  by simp

lemma has_id_Nil [simp]: "\<not> has_id [] i"
  by (auto simp: has_id_def)

lemma has_id_Cons [simp]: "has_id (x # xs) i \<longleftrightarrow> x ''_id'' = Some (VStr i) \<or> has_id xs i"
  by (auto simp: has_id_def)

lemma has_id_append [simp]: "has_id (xs @ ys) i \<longleftrightarrow> has_id xs i \<or> has_id ys i"
  by (auto simp: has_id_def list_ex_iff)



section \<open>The credential check\<close>

lemma known_teacherD:
  "known_teacher db teacher_username \<Longrightarrow>
   \<exists>username teacher. teacher_username = Some username \<and> username \<noteq> []
      \<and> find_one (teachers_collection db) [(''_id'', VStr username)] = Some teacher"
  using find_one_None_iff [of "teachers_collection db"]
  by (cases teacher_username) (auto simp: known_teacher_def)

lemma create_unauthorized:
  "\<not> known_teacher db teacher_username \<Longrightarrow>
   http_status (fst (create_announcement db utcnow new_id title message teacher_username is_active)) = Some 401
   \<and> snd (create_announcement db utcnow new_id title message teacher_username is_active) = db"
  by (auto simp: known_teacher_def create_announcement_def find_one_None_iff
      dest: find_one_Some_has_id split: option.splits)

lemma update_unauthorized:
  "\<not> known_teacher db teacher_username \<Longrightarrow>
   http_status (fst (update_announcement db announcement_id teacher_username is_active title message)) = Some 401
   \<and> snd (update_announcement db announcement_id teacher_username is_active title message) = db"
  by (auto simp: known_teacher_def update_announcement_def find_one_None_iff
      dest: find_one_Some_has_id split: option.splits)

lemma delete_unauthorized:
  "\<not> known_teacher db teacher_username \<Longrightarrow>
   http_status (fst (delete_announcement db announcement_id teacher_username)) = Some 401
   \<and> snd (delete_announcement db announcement_id teacher_username) = db"
  by (auto simp: known_teacher_def delete_announcement_def find_one_None_iff
      dest: find_one_Some_has_id split: option.splits)

section \<open>Facts about \<^verbatim>\<open>update_doc\<close> and \<^verbatim>\<open>$set\<close>\<close>

lemma update_doc_Nil [simp]:
  "update_doc is_active title message = [] \<longleftrightarrow> is_active = None \<and> title = None \<and> message = None"
  by (auto simp: update_doc_def split: option.splits)

lemma set_fields_is_active:
  "set_fields (update_doc is_active title message) d ''is_active'' =
     (case is_active of None \<Rightarrow> d ''is_active'' | Some b \<Rightarrow> Some (VBool b))"
  by (cases is_active; cases title; cases message) (simp_all add: set_fields_def update_doc_def)


lemma set_fields_message:
  "set_fields (update_doc is_active title message) d ''message'' =
     (case message of None \<Rightarrow> d ''message'' | Some m \<Rightarrow> Some (VStr m))"
  by (cases is_active; cases title; cases message) (simp_all add: set_fields_def update_doc_def)



section \<open>The handlers, case by case\<close>

text \<open>
  What update and delete return and store once the credential is accepted, by the
  outcome of the lookup of the path string among the stored identifiers, and the stores
  that each handler can leave behind.
\<close>

lemma update_no_fields:
  "known_teacher db teacher_username \<Longrightarrow>
   update_announcement db announcement_id teacher_username None None None =
     (Inl (HTTPException 400 ''No fields to update''), db)"
  using known_teacherD [of db teacher_username]
  by (auto simp: update_announcement_def)

lemma update_unknown:
  assumes "known_teacher db teacher_username"
    and "is_active \<noteq> None \<or> title \<noteq> None \<or> message \<noteq> None"
    and "\<not> has_id (announcements_collection db) announcement_id"
  shows "update_announcement db announcement_id teacher_username is_active title message =
           (Inl (HTTPException 404 ''Announcement not found''), db)"
proof -
  from assms(3) have "find_one (announcements_collection db) [(''_id'', VStr announcement_id)] = None"
    by (simp add: find_one_None_iff)
  then have "update_one (announcements_collection db) [(''_id'', VStr announcement_id)]
               (update_doc is_active title message) = (0, announcements_collection db)"
    by (rule update_one_unmatched)
  with known_teacherD [OF assms(1)] assms(2) show ?thesis
    by (auto simp: update_announcement_def)
qed


lemma delete_unknown:
  assumes "known_teacher db teacher_username"
    and "\<not> has_id (announcements_collection db) announcement_id"
  shows "delete_announcement db announcement_id teacher_username =
           (Inl (HTTPException 404 ''Announcement not found''), db)"
proof -
  from assms(2) have "find_one (announcements_collection db) [(''_id'', VStr announcement_id)] = None"
    by (simp add: find_one_None_iff)
  then have "delete_one (announcements_collection db) [(''_id'', VStr announcement_id)]
               = (0, announcements_collection db)"
    by (rule delete_one_unmatched)
  with known_teacherD [OF assms(1)] show ?thesis
    by (auto simp: delete_announcement_def)
qed

lemma delete_known:
  assumes "known_teacher db teacher_username"
    and "announcements_collection db = before @ x # after"
    and "x ''_id'' = Some (VStr announcement_id)"
    and "\<not> has_id before announcement_id"
  shows "delete_announcement db announcement_id teacher_username =
           (Inr [''message'' \<mapsto> VStr ''Announcement deleted successfully''],
            db\<lparr>announcements_collection := before @ after\<rparr>)"
proof -
  from assms(4) have "find_one before [(''_id'', VStr announcement_id)] = None"
    by (simp add: find_one_None_iff)
  then have "delete_one (before @ x # after) [(''_id'', VStr announcement_id)] = (1, before @ after)"
    using assms(3) by (intro delete_one_matched) simp_all
  with known_teacherD [OF assms(1)] assms(2) show ?thesis
    by (auto simp: delete_announcement_def)
qed

lemma create_store_cases:
  "snd (create_announcement db utcnow new_id title message teacher_username is_active) = db
   \<or> (\<exists>display_name.
        snd (create_announcement db utcnow new_id title message teacher_username is_active) =
          db\<lparr>announcements_collection := announcements_collection db @
               [[''title'' \<mapsto> VStr title,
                 ''message'' \<mapsto> VStr message,
                 ''created_by'' \<mapsto> display_name,
                 ''created_at'' \<mapsto> VStr utcnow,
                 ''is_active'' \<mapsto> VBool is_active,
                 ''_id'' \<mapsto> new_id]]\<rparr>)"
  by (auto simp: create_announcement_def insert_one_def Let_def split: option.splits)



section \<open>Stores whose identifiers the store assigned\<close>

text \<open>
  \<^verbatim>\<open>create_announcement\<close> stores the identifier as the store assigned it and returns it
  printed with \<^verbatim>\<open>str\<close>; \<^verbatim>\<open>update_announcement\<close> and \<^verbatim>\<open>delete_announcement\<close>
  look the path string up among the stored identifiers. A store that holds only
  announcements with assigned identifiers stays so under create, and in it no lookup by a
  string finds anything: every update and delete by an accepted teacher answers 404.
\<close>

lemma oid_keyed_no_string_id: "list_all oid_keyed c \<Longrightarrow> \<not> has_id c i"
  by (induction c) (auto simp: oid_keyed_def split: option.splits val.splits)

lemma create_oid_keyed:
  assumes "list_all oid_keyed (announcements_collection db)"
  shows "list_all oid_keyed (announcements_collection
           (snd (create_announcement db utcnow (VObjectId h) title message teacher_username
                   is_active)))"
  using assms
    create_store_cases [of db utcnow "VObjectId h" title message teacher_username is_active]
  by (auto simp: oid_keyed_def)


lemma delete_oid_keyed_not_found:
  assumes "known_teacher db teacher_username"
    and "list_all oid_keyed (announcements_collection db)"
  shows "delete_announcement db announcement_id teacher_username =
           (Inl (HTTPException 404 ''Announcement not found''), db)"
  by (rule delete_unknown [OF assms(1) oid_keyed_no_string_id [OF assms(2)]])

section \<open>The example databases, evaluated\<close>

lemma school_intruder: "\<not> known_teacher school (Some ''intruder'')"
  by (simp add: known_teacher_def has_id_def school_def ms_jones_def)

lemma school_jones: "known_teacher school (Some ''t_jones'')"
  by (simp add: known_teacher_def has_id_def school_def ms_jones_def)

lemma school_no_zz: "\<not> has_id (announcements_collection school) ''zz''"
  by (simp add: has_id_def school_def exam_def)


lemma school_list: "get_announcements school None = [pop ''_id'' exam]"
  by (simp add: get_announcements_eq school_def)

lemma staffroom_create:
  "create_announcement staffroom ''2024-05-02T10:00:00'' (VObjectId ''65a1b2c3d4e5f60718293a4b'')
      ''Exam'' ''Math exam Friday'' (Some ''t_jones'') True =
   (Inr (notice(''_id'' \<mapsto> VStr ''65a1b2c3d4e5f60718293a4b'')), posted)"
  by (simp add: create_announcement_def insert_one_def find_one_def staffroom_def posted_def
      ms_jones_def notice_def Let_def)

lemma posted_jones: "known_teacher posted (Some ''t_jones'')"
  by (simp add: known_teacher_def has_id_def posted_def ms_jones_def)

lemma posted_oid_keyed: "list_all oid_keyed (announcements_collection posted)"
  by (simp add: posted_def notice_def oid_keyed_def)

lemma posted_list: "get_announcements posted None = [pop ''_id'' notice]"
  by (simp add: get_announcements_eq posted_def)

section \<open>The claims\<close>

text \<open>
  Claim C1. For every state of the store, listing with \<^verbatim>\<open>active_only\<close> true returns
  exactly the announcements whose \<^verbatim>\<open>is_active\<close> field is true, and listing with
  \<^verbatim>\<open>active_only\<close> false (or absent) returns every announcement, each as the payload the
  handler builds from the stored document; the returned sequence is ordered by
  \<^verbatim>\<open>created_at\<close> descending, and an empty store yields the empty sequence.
\<close>

theorem get_announcements_filter_order:
  "mset (get_announcements db (Some True)) =
     mset (map (pop ''_id'')
        (filter (\<lambda>d. d ''is_active'' = Some (VBool True)) (announcements_collection db)))
   \<and> mset (get_announcements db (Some False)) =
     mset (map (pop ''_id'') (announcements_collection db))
   \<and> mset (get_announcements db None) =
     mset (map (pop ''_id'') (announcements_collection db))
   \<and> sorted_wrt (\<lambda>a b. bson_key (b ''created_at'') \<le> bson_key (a ''created_at''))
       (get_announcements db active_only)
   \<and> get_announcements (db\<lparr>announcements_collection := []\<rparr>) active_only = []"
  by (simp add: get_announcements_eq sorted_desc)

text \<open>
  Claim C2. A call of create, update or delete whose \<^verbatim>\<open>teacher_username\<close> is absent
  or empty, or matches no teacher record, fails with status 401 and leaves the store
  unchanged.
\<close>

theorem unauthorized_leaves_store:
  assumes "\<not> known_teacher db teacher_username"
  shows "http_status (fst (create_announcement db utcnow new_id title message teacher_username is_active)) = Some 401
       \<and> snd (create_announcement db utcnow new_id title message teacher_username is_active) = db
       \<and> http_status (fst (update_announcement db announcement_id teacher_username is_active' title' message')) = Some 401
       \<and> snd (update_announcement db announcement_id teacher_username is_active' title' message') = db
       \<and> http_status (fst (delete_announcement db announcement_id teacher_username)) = Some 401
       \<and> snd (delete_announcement db announcement_id teacher_username) = db"
  using create_unauthorized [OF assms] update_unauthorized [OF assms] delete_unauthorized [OF assms]
  by blast

text \<open>The three calls by a user who is not a teacher of the example database.\<close>

theorem unauthorized_leaves_store_witness:
  "\<not> known_teacher school (Some ''intruder'')
   \<and> http_status (fst (create_announcement school ''2024-05-02T10:00:00'' (VObjectId ''65a1'')
        ''Trip'' ''Museum trip'' (Some ''intruder'') True)) = Some 401
   \<and> snd (create_announcement school ''2024-05-02T10:00:00'' (VObjectId ''65a1'')
        ''Trip'' ''Museum trip'' (Some ''intruder'') True) = school
   \<and> http_status (fst (update_announcement school ''a1'' (Some ''intruder'') (Some False) None None)) = Some 401
   \<and> snd (update_announcement school ''a1'' (Some ''intruder'') (Some False) None None) = school
   \<and> http_status (fst (delete_announcement school ''a1'' (Some ''intruder''))) = Some 401
   \<and> snd (delete_announcement school ''a1'' (Some ''intruder'')) = school"
  using school_intruder
    unauthorized_leaves_store [OF school_intruder, where utcnow = "''2024-05-02T10:00:00''"
      and new_id = "VObjectId ''65a1''" and title = "''Trip''" and message = "''Museum trip''"
      and is_active = True and announcement_id = "''a1''" and is_active' = "Some False"
      and title' = None and message' = None]
  by simp

text \<open>
  Claim C3, as amended. A create succeeds exactly when \<^verbatim>\<open>teacher_username\<close> is a
  non-empty name matching a stored teacher, that teacher has a \<^verbatim>\<open>display_name\<close>, and
  the store accepts the new identifier. It then persists exactly one new record, appended
  to the store, whose \<^verbatim>\<open>created_by\<close> is that teacher's \<^verbatim>\<open>display_name\<close>, whose
  \<^verbatim>\<open>created_at\<close> is the clock reading, and whose title, message and \<^verbatim>\<open>is_active\<close>
  are the arguments; the returned record is the persisted record with its \<^verbatim>\<open>_id\<close>
  replaced by the store-assigned identifier printed as a string. (As stated, with the
  returned record being the persisted one, the claim fails: see the example after the
  theorem.)
\<close>

theorem create_success_record:
  "create_announcement db utcnow new_id title message teacher_username is_active = (Inr r, db')
   \<longleftrightarrow>
   (\<exists>username teacher display_name persisted.
        teacher_username = Some username
      \<and> username \<noteq> []
      \<and> find_one (teachers_collection db) [(''_id'', VStr username)] = Some teacher
      \<and> teacher ''display_name'' = Some display_name
      \<and> find_one (announcements_collection db) [(''_id'', new_id)] = None
      \<and> persisted = [''title'' \<mapsto> VStr title,
                      ''message'' \<mapsto> VStr message,
                      ''created_by'' \<mapsto> display_name,
                      ''created_at'' \<mapsto> VStr utcnow,
                      ''is_active'' \<mapsto> VBool is_active,
                      ''_id'' \<mapsto> new_id]
      \<and> db' = db\<lparr>announcements_collection := announcements_collection db @ [persisted]\<rparr>
      \<and> r = persisted(''_id'' \<mapsto> VStr (py_str new_id)))"
  by (auto simp: create_announcement_def insert_one_def Let_def
      split: option.splits if_splits)

text \<open>
  Ms. Jones announces the exam: the stored record has the identifier as an ObjectId, the
  returned record has it as a string, so the two differ.
\<close>

theorem create_success_record_counterexample:
  "create_announcement staffroom ''2024-05-02T10:00:00'' (VObjectId ''65a1b2c3d4e5f60718293a4b'')
      ''Exam'' ''Math exam Friday'' (Some ''t_jones'') True =
   (Inr (notice(''_id'' \<mapsto> VStr ''65a1b2c3d4e5f60718293a4b'')), posted)
   \<and> announcements_collection posted = [notice]
   \<and> notice ''_id'' = Some (VObjectId ''65a1b2c3d4e5f60718293a4b'')
   \<and> (notice(''_id'' \<mapsto> VStr ''65a1b2c3d4e5f60718293a4b'')) ''_id'' = Some (VStr ''65a1b2c3d4e5f60718293a4b'')
   \<and> notice(''_id'' \<mapsto> VStr ''65a1b2c3d4e5f60718293a4b'') \<noteq> notice"
proof -
  have differ: "notice(''_id'' \<mapsto> VStr ''65a1b2c3d4e5f60718293a4b'') \<noteq> notice"
  proof
    assume "notice(''_id'' \<mapsto> VStr ''65a1b2c3d4e5f60718293a4b'') = notice"
    then have "(notice(''_id'' \<mapsto> VStr ''65a1b2c3d4e5f60718293a4b'')) ''_id'' = notice ''_id''"
      by simp
    then show False by (simp add: notice_def)
  qed
  show ?thesis
    using staffroom_create differ by (simp add: posted_def notice_def)
qed

text \<open>The same call, obtained from the conditions under which create succeeds.\<close>

theorem create_success_record_witness:
  "create_announcement staffroom ''2024-05-02T10:00:00'' (VObjectId ''65a1b2c3d4e5f60718293a4b'')
      ''Exam'' ''Math exam Friday'' (Some ''t_jones'') True =
   (Inr (notice(''_id'' \<mapsto> VStr ''65a1b2c3d4e5f60718293a4b'')), posted)"
proof -
  have "\<exists>username teacher display_name persisted.
        Some ''t_jones'' = Some username
      \<and> username \<noteq> []
      \<and> find_one (teachers_collection staffroom) [(''_id'', VStr username)] = Some teacher
      \<and> teacher ''display_name'' = Some display_name
      \<and> find_one (announcements_collection staffroom) [(''_id'', VObjectId ''65a1b2c3d4e5f60718293a4b'')] = None
      \<and> persisted = [''title'' \<mapsto> VStr ''Exam'',
                      ''message'' \<mapsto> VStr ''Math exam Friday'',
                      ''created_by'' \<mapsto> display_name,
                      ''created_at'' \<mapsto> VStr ''2024-05-02T10:00:00'',
                      ''is_active'' \<mapsto> VBool True,
                      ''_id'' \<mapsto> VObjectId ''65a1b2c3d4e5f60718293a4b'']
      \<and> posted = staffroom\<lparr>announcements_collection :=
                        announcements_collection staffroom @ [persisted]\<rparr>
      \<and> notice(''_id'' \<mapsto> VStr ''65a1b2c3d4e5f60718293a4b'') =
          persisted(''_id'' \<mapsto> VStr (py_str (VObjectId ''65a1b2c3d4e5f60718293a4b'')))"
    by (intro exI [of _ "''t_jones''"] exI [of _ ms_jones] exI [of _ "VStr ''Ms. Jones''"]
        exI [of _ notice])
       (simp add: find_one_def staffroom_def posted_def ms_jones_def notice_def)
  then show ?thesis
    by (rule create_success_record [THEN iffD2])
qed


text \<open>
  Claim C5. An update by an accepted teacher that supplies none of \<^verbatim>\<open>is_active\<close>,
  \<^verbatim>\<open>title\<close>, \<^verbatim>\<open>message\<close> fails with status 400 and leaves the store unchanged.
\<close>

theorem update_without_fields_bad_request:
  assumes "known_teacher db teacher_username"
  shows "update_announcement db announcement_id teacher_username None None None =
           (Inl (HTTPException 400 ''No fields to update''), db)"
  using assms by (rule update_no_fields)

text \<open>Ms. Jones sends an update without any field.\<close>

theorem update_without_fields_bad_request_witness:
  "known_teacher school (Some ''t_jones'')
   \<and> update_announcement school ''a1'' (Some ''t_jones'') None None None =
           (Inl (HTTPException 400 ''No fields to update''), school)"
  using school_jones update_without_fields_bad_request [OF school_jones, of "''a1''"]
  by simp

text \<open>
  Claim C6. An update by an accepted teacher that supplies at least one field, for an
  identifier that no stored announcement has, fails with status 404 and leaves the store
  unchanged.
\<close>

theorem update_unknown_id_not_found:
  assumes "known_teacher db teacher_username"
    and "is_active \<noteq> None \<or> title \<noteq> None \<or> message \<noteq> None"
    and "\<not> has_id (announcements_collection db) announcement_id"
  shows "update_announcement db announcement_id teacher_username is_active title message =
           (Inl (HTTPException 404 ''Announcement not found''), db)"
  using assms by (rule update_unknown)

text \<open>Ms. Jones retitles an announcement that does not exist.\<close>

theorem update_unknown_id_not_found_witness:
  "known_teacher school (Some ''t_jones'')
   \<and> ((Some ''New title'' :: string option) \<noteq> None)
   \<and> \<not> has_id (announcements_collection school) ''zz''
   \<and> update_announcement school ''zz'' (Some ''t_jones'') None (Some ''New title'') None =
           (Inl (HTTPException 404 ''Announcement not found''), school)"
  using school_jones school_no_zz
    update_unknown_id_not_found [OF school_jones _ school_no_zz, of None "Some ''New title''" None]
  by simp

text \<open>
  Claim C7. A delete of an existing announcement removes it, so that a following listing
  excludes it, and returns a confirmation. The code does not do so for the announcements
  that \<^verbatim>\<open>create_announcement\<close> stores: the delete of the announcement just created, by
  the identifier that create returned, answers 404, removes nothing, and the announcement
  is still listed afterwards.
\<close>

theorem delete_created_announcement_not_found:
  "create_announcement staffroom ''2024-05-02T10:00:00'' (VObjectId ''65a1b2c3d4e5f60718293a4b'')
      ''Exam'' ''Math exam Friday'' (Some ''t_jones'') True =
   (Inr (notice(''_id'' \<mapsto> VStr ''65a1b2c3d4e5f60718293a4b'')), posted)
   \<and> delete_announcement posted ''65a1b2c3d4e5f60718293a4b'' (Some ''t_jones'') =
       (Inl (HTTPException 404 ''Announcement not found''), posted)
   \<and> get_announcements (snd (delete_announcement posted ''65a1b2c3d4e5f60718293a4b'' (Some ''t_jones''))) None =
       [pop ''_id'' notice]"
proof -
  have "delete_announcement posted ''65a1b2c3d4e5f60718293a4b'' (Some ''t_jones'') =
       (Inl (HTTPException 404 ''Announcement not found''), posted)"
    by (rule delete_oid_keyed_not_found [OF posted_jones posted_oid_keyed])
  then show ?thesis
    using staffroom_create posted_list by simp
qed

text \<open>
  Claim C8, as amended. Every record returned by the listing is a stored announcement
  without its \<^verbatim>\<open>_id\<close> key: the identifier is removed and every other field is
  retained unchanged. (As stated, with the identifier retained, the claim fails: see the
  example after the theorem.)
\<close>

theorem list_strips_identifier:
  assumes "r \<in> set (get_announcements db active_only)"
  shows "r ''_id'' = None
       \<and> (\<exists>d \<in> set (announcements_collection db).
             r = pop ''_id'' d \<and> (\<forall>k. k \<noteq> ''_id'' \<longrightarrow> r k = d k))"
  using assms by (auto simp: get_announcements_eq)

text \<open>
  The stored exam announcement has the identifier \<^verbatim>\<open>a1\<close>; the one record that the
  listing returns has neither \<^verbatim>\<open>_id\<close> nor \<^verbatim>\<open>id\<close>.
\<close>

theorem list_strips_identifier_counterexample:
  "get_announcements school None = [pop ''_id'' exam]
   \<and> exam ''_id'' = Some (VStr ''a1'')
   \<and> (pop ''_id'' exam) ''_id'' = None
   \<and> (pop ''_id'' exam) ''id'' = None"
  by (simp add: school_list exam_def pop_def)

text \<open>The listing of the example database.\<close>

theorem list_strips_identifier_witness:
  "pop ''_id'' exam \<in> set (get_announcements school None)
   \<and> (pop ''_id'' exam) ''_id'' = None
   \<and> (\<exists>d \<in> set (announcements_collection school).
             pop ''_id'' exam = pop ''_id'' d
           \<and> (\<forall>k. k \<noteq> ''_id'' \<longrightarrow> (pop ''_id'' exam) k = d k))"
proof -
  have h: "pop ''_id'' exam \<in> set (get_announcements school None)"
    by (simp add: school_list)
  from list_strips_identifier [OF h] h show ?thesis by blast
qed




text \<open>
  Claim C10. The checks are made in the order 401, 400, 404. An update without an
  accepted teacher answers 401 whatever the identifier and the fields are; an update by
  an accepted teacher without fields, for an unknown identifier, answers 400; a delete
  without an accepted teacher answers 401 whatever the identifier is.
\<close>

theorem error_check_order:
  "(\<not> known_teacher db teacher_username \<longrightarrow>
      http_status (fst (update_announcement db announcement_id teacher_username
                          is_active title message)) = Some 401)
   \<and> (known_teacher db teacher_username'
        \<and> \<not> has_id (announcements_collection db) announcement_id' \<longrightarrow>
      http_status (fst (update_announcement db announcement_id' teacher_username'
                          None None None)) = Some 400)
   \<and> (\<not> known_teacher db teacher_username \<longrightarrow>
      http_status (fst (delete_announcement db announcement_id' teacher_username)) = Some 401)"
proof (intro conjI impI)
  assume "\<not> known_teacher db teacher_username"
  then show "http_status (fst (update_announcement db announcement_id teacher_username
                          is_active title message)) = Some 401"
    using update_unauthorized by blast
next
  assume "known_teacher db teacher_username'
        \<and> \<not> has_id (announcements_collection db) announcement_id'"
  then have "known_teacher db teacher_username'" ..
  from update_no_fields [OF this]
  show "http_status (fst (update_announcement db announcement_id' teacher_username'
                          None None None)) = Some 400"
    by simp
next
  assume "\<not> known_teacher db teacher_username"
  then show "http_status (fst (delete_announcement db announcement_id' teacher_username)) = Some 401"
    using delete_unauthorized by blast
qed

text \<open>Calls without a username, and Ms. Jones updating a missing announcement without fields.\<close>

theorem error_check_order_witness:
  "\<not> known_teacher school None
   \<and> http_status (fst (update_announcement school ''a1'' None (Some False) None None)) = Some 401
   \<and> known_teacher school (Some ''t_jones'')
   \<and> \<not> has_id (announcements_collection school) ''zz''
   \<and> http_status (fst (update_announcement school ''zz'' (Some ''t_jones'') None None None)) = Some 400
   \<and> http_status (fst (delete_announcement school ''zz'' None)) = Some 401"
proof -
  have a: "\<not> known_teacher school None"
    by (simp add: known_teacher_def)
  note t = error_check_order [of school None "''a1''" "Some False" None None
      "Some ''t_jones''" "''zz''"]
  show ?thesis
    using a school_jones school_no_zz t by simp
qed

end
